theory Spec2Isabelle
  imports Complex_Main
begin

section \<open>Freight quoting and fleet booking (backend/app/main.py)\<close>

text \<open>
  The development embeds the two pieces of domain logic of \<^verbatim>\<open>backend/app/main.py\<close>:
  the conflict check and booking flow (\<^verbatim>\<open>check_availability\<close>, \<^verbatim>\<open>book_trip\<close>) and the
  quote computation (\<^verbatim>\<open>calculate_quote\<close>).

  Conventions of the embedding:
  \<^item> a Python \<^verbatim>\<open>float\<close> is the \<^typ>\<open>real\<close> number it stands for, and a float operation
    is the exact operation followed by the rounding \<open>rnd\<close> to the nearest double, which
    is the first parameter of every function that computes with floats (so a theorem
    holds for every rounding, binary64's included). Multiplying by 2 and dividing by 8
    change the exponent only and are written without \<open>rnd\<close>. The comparison of a float
    with an integer and \<^verbatim>\<open>math.ceil\<close> are exact in Python. NaN and the infinities are
    not values of the model, and its exponent range is unbounded (no overflow, no
    underflow). A Python \<^verbatim>\<open>int\<close> is an \<^typ>\<open>int\<close>;
  \<^item> a \<^verbatim>\<open>datetime\<close> is the number of microseconds (the resolution of Python's
    \<^verbatim>\<open>datetime\<close>) from 0001-01-01T00:00:00 to it; Python's last instant,
    9999-12-31T23:59:59.999999, is \<open>datetime_max\<close>, and an addition that leaves the range
    raises \<^verbatim>\<open>OverflowError\<close>. The trip store keeps timestamps as ISO strings and parses
    them back with \<^verbatim>\<open>fromisoformat\<close>, which returns the stored value, so the store of
    the model keeps the timestamp itself. All timestamps of a run are of one kind (all
    naive, or all aware with one UTC offset), which Python needs to compare them;
  \<^item> the module-level dictionaries are fields of one record that is passed in and
    returned; a raised exception is the \<open>Inl\<close> of a sum;
  \<^item> library calls that are not part of the module (\<^verbatim>\<open>strftime\<close>, the geocoder, the
    OSRM request, \<^verbatim>\<open>great_circle\<close>, \<^verbatim>\<open>str\<close> of an exception, \<^verbatim>\<open>uuid4\<close>) are parameters;
  \<^item> message texts are written without their diacritics (\<^verbatim>\<open>ja\<close>, \<^verbatim>\<open>ate\<close>,
    \<^verbatim>\<open>Disponivel\<close>, \<^verbatim>\<open>Veiculo\<close>, \<^verbatim>\<open>nao\<close>, \<^verbatim>\<open>Localizacao\<close>).
\<close>

subsection \<open>Data model\<close>

type_synonym datetime = int

text \<open>The value dictionaries of \<^verbatim>\<open>db_trucks\<close> and \<^verbatim>\<open>db_drivers\<close>.\<close>

record truck =
  truck_id :: string
  truck_nome :: string
  consumo :: real
  tanque :: int
  placa :: string
  truck_status :: string

record driver =
  driver_id :: string
  driver_nome :: string
  cnh :: string
  foto_url :: string
  driver_status :: string

text \<open>\<^verbatim>\<open>class TripCreate(BaseModel)\<close>, the body of a booking request.\<close>

record TripCreate =
  origem :: string
  destino :: string
  distancia_km :: real
  preco_final :: real
  lucro :: real
  custo_motorista :: real
  veiculo_id :: string
  motorista_id :: string
  data_inicio :: datetime
  paradas_previstas :: int

text \<open>
  An element of \<^verbatim>\<open>db_trips\<close>: \<^verbatim>\<open>trip.dict()\<close> extended by the keys that
  \<^verbatim>\<open>book_trip\<close> adds.
\<close>

record trip_data = TripCreate +
  trip_id :: string
  trip_status :: string
  data_fim :: datetime
  dias_duracao :: int

record db =
  db_trucks :: "string \<rightharpoonup> truck"
  db_drivers :: "string \<rightharpoonup> driver"
  db_trips :: "trip_data list"

text \<open>
  Exceptions: FastAPI's \<^verbatim>\<open>HTTPException(status_code, detail)\<close>, Python's
  \<^verbatim>\<open>ZeroDivisionError\<close> and \<^verbatim>\<open>OverflowError\<close>, and an exception raised inside a
  library call.
\<close>

datatype error =
  HTTPException int string
  | ZeroDivisionError
  | OverflowError
  | LibraryError string

text \<open>The dictionary \<^verbatim>\<open>book_trip\<close> returns.\<close>

record book_response =
  msg :: string
  resp_id :: string
  termino_estimado :: datetime

subsection \<open>Double arithmetic\<close>

text \<open>
  The four operations on doubles, the conversion of an \<^verbatim>\<open>int\<close> operand to a double,
  and Python's \<^verbatim>\<open>/\<close>, which raises \<^verbatim>\<open>ZeroDivisionError\<close> on a zero divisor.
\<close>

definition fadd :: "(real \<Rightarrow> real) \<Rightarrow> real \<Rightarrow> real \<Rightarrow> real" where
  "fadd rnd a b = rnd (a + b)"

definition fsub :: "(real \<Rightarrow> real) \<Rightarrow> real \<Rightarrow> real \<Rightarrow> real" where
  "fsub rnd a b = rnd (a - b)"

definition fmul :: "(real \<Rightarrow> real) \<Rightarrow> real \<Rightarrow> real \<Rightarrow> real" where
  "fmul rnd a b = rnd (a * b)"

definition fdiv :: "(real \<Rightarrow> real) \<Rightarrow> real \<Rightarrow> real \<Rightarrow> real" where
  "fdiv rnd a b = rnd (a / b)"

definition to_float :: "(real \<Rightarrow> real) \<Rightarrow> int \<Rightarrow> real" where
  "to_float rnd n = rnd (of_int n)"

definition py_div :: "(real \<Rightarrow> real) \<Rightarrow> real \<Rightarrow> real \<Rightarrow> error + real" where
  "py_div rnd a b = (if b = 0 then Inl ZeroDivisionError else Inr (fdiv rnd a b))"

text \<open>
  \<^verbatim>\<open>round(x, ndigits)\<close>: the multiple of \<open>10 ^ -ndigits\<close> nearest to the exact value of
  the double \<open>x\<close>, ties to even, and of that decimal the nearest double.
\<close>

definition py_round :: "(real \<Rightarrow> real) \<Rightarrow> real \<Rightarrow> nat \<Rightarrow> real" where
  "py_round rnd x ndigits =
     (let m = 10 ^ ndigits;
          y = x * m;
          f = \<lfloor>y\<rfloor>;
          d = y - of_int f;
          n = (if d < 1 / 2 then f else if d > 1 / 2 then f + 1
               else if even f then f else f + 1)
      in rnd (of_int n / m))"

subsection \<open>Strings\<close>

text \<open>\<^verbatim>\<open>str.capitalize\<close> on ASCII text: first character upper case, the rest lower case.\<close>

definition upper_char :: "char \<Rightarrow> char" where
  "upper_char c =
     (let n = (of_char c :: nat) in if 97 \<le> n \<and> n \<le> 122 then char_of (n - 32) else c)"

definition lower_char :: "char \<Rightarrow> char" where
  "lower_char c =
     (let n = (of_char c :: nat) in if 65 \<le> n \<and> n \<le> 90 then char_of (n + 32) else c)"

fun capitalize :: "string \<Rightarrow> string" where
  "capitalize [] = []"
| "capitalize (c # cs) = upper_char c # map lower_char cs"

subsection \<open>Conflict check\<close>

text \<open>
  \<^verbatim>\<open>def check_availability(resource_id, start, end, resource_type='veiculo')\<close>: the loop
  over \<^verbatim>\<open>db_trips\<close> in list order, returning at the first trip of the resource whose
  window satisfies \<^verbatim>\<open>start < t_end and end > t_start\<close>. The first parameter is
  \<^verbatim>\<open>strftime('%d/%m %H:%M')\<close>, the second the list \<^verbatim>\<open>db_trips\<close>.
\<close>

definition conflict_msg :: "(datetime \<Rightarrow> string) \<Rightarrow> string \<Rightarrow> datetime \<Rightarrow> datetime \<Rightarrow> string" where
  "conflict_msg strftime resource_type t_start t_end =
     capitalize resource_type @ '' ja reservado de '' @ strftime t_start @ '' ate '' @ strftime t_end"

fun check_availability ::
  "(datetime \<Rightarrow> string) \<Rightarrow> trip_data list \<Rightarrow> string \<Rightarrow> datetime \<Rightarrow> datetime \<Rightarrow> string
    \<Rightarrow> bool \<times> string" where
  "check_availability strftime [] resource_id start end_t resource_type = (True, ''Disponivel'')"
| "check_availability strftime (trip # trips) resource_id start end_t resource_type =
     (let t_start = data_inicio trip;
          t_end = data_fim trip;
          trip_resource_id =
            (if resource_type = ''veiculo'' then veiculo_id trip else motorista_id trip)
      in if trip_resource_id = resource_id \<and> start < t_end \<and> end_t > t_start
         then (False, conflict_msg strftime resource_type t_start t_end)
         else check_availability strftime trips resource_id start end_t resource_type)"

subsection \<open>Booking\<close>

text \<open>
  \<^verbatim>\<open>timedelta(days=n)\<close> in microseconds; Python refuses more than 999999999 days.
  \<^verbatim>\<open>datetime + timedelta\<close> raises when the sum is outside the range of \<^verbatim>\<open>datetime\<close>.
\<close>

definition datetime_max :: datetime where
  "datetime_max = 315537897599999999"

definition timedelta_days :: "int \<Rightarrow> error + int" where
  "timedelta_days n =
     (if \<bar>n\<bar> \<le> 999999999 then Inr (n * 86400000000) else Inl OverflowError)"

definition datetime_add :: "datetime \<Rightarrow> int \<Rightarrow> error + datetime" where
  "datetime_add t delta =
     (let r = t + delta in if 0 \<le> r \<and> r \<le> datetime_max then Inr r else Inl OverflowError)"

definition book_truck :: "string \<Rightarrow> (string \<rightharpoonup> truck) \<Rightarrow> (string \<rightharpoonup> truck)" where
  "book_truck vid trucks =
     (case trucks vid of
        None \<Rightarrow> trucks
      | Some t \<Rightarrow> trucks(vid \<mapsto> t\<lparr>truck_status := ''Agendado''\<rparr>))"

definition book_driver :: "string \<Rightarrow> (string \<rightharpoonup> driver) \<Rightarrow> (string \<rightharpoonup> driver)" where
  "book_driver did drivers =
     (case drivers did of
        None \<Rightarrow> drivers
      | Some d \<Rightarrow> drivers(did \<mapsto> d\<lparr>driver_status := ''Agendado''\<rparr>))"

text \<open>
  \<^verbatim>\<open>def book_trip(trip: TripCreate)\<close>. The result pairs the store after the call with
  the raised exception or the returned dictionary. \<open>new_id\<close> is
  \<^verbatim>\<open>str(uuid.uuid4())[:8]\<close>. The two status updates are \<open>book_truck\<close> and
  \<open>book_driver\<close> above (\<^verbatim>\<open>if trip.veiculo_id in db_trucks: ...\<close>). An exception of
  line 262 (\<^verbatim>\<open>trip.data_inicio + timedelta(days=dias_necessarios)\<close>) leaves the function
  before any check.
\<close>

definition book_trip ::
  "(real \<Rightarrow> real) \<Rightarrow> (datetime \<Rightarrow> string) \<Rightarrow> string \<Rightarrow> TripCreate \<Rightarrow> db
    \<Rightarrow> db \<times> (error + book_response)" where
  "book_trip rnd strftime new_id trip s =
     (let horas_totais = fdiv rnd (distancia_km trip) 70;
          dias_necessarios = \<lceil>horas_totais / 8\<rceil>;
          dias_necessarios = (if dias_necessarios < 1 then 1 else dias_necessarios)
      in case timedelta_days dias_necessarios of
           Inl e \<Rightarrow> (s, Inl e)
         | Inr delta \<Rightarrow>
      (case datetime_add (data_inicio trip) delta of
           Inl e \<Rightarrow> (s, Inl e)
         | Inr data_fim_v \<Rightarrow>
      (let (truck_ok, truck_msg) =
             check_availability strftime (db_trips s) (veiculo_id trip) (data_inicio trip)
               data_fim_v ''veiculo''
       in if \<not> truck_ok then (s, Inl (HTTPException 409 (''Conflito: '' @ truck_msg)))
          else
            (let (driver_ok, driver_msg) =
                   check_availability strftime (db_trips s) (motorista_id trip)
                     (data_inicio trip) data_fim_v ''motorista''
             in if \<not> driver_ok then (s, Inl (HTTPException 409 (''Conflito: '' @ driver_msg)))
                else
                  (let trip_data_v =
                         TripCreate.extend trip
                           (trip_data.fields new_id ''Agendada'' data_fim_v dias_necessarios);
                       s1 = s\<lparr>db_trips := db_trips s @ [trip_data_v]\<rparr>;
                       s2 = s1\<lparr>db_trucks := book_truck (veiculo_id trip) (db_trucks s1)\<rparr>;
                       s3 = s2\<lparr>db_drivers := book_driver (motorista_id trip) (db_drivers s2)\<rparr>
                   in (s3, Inr \<lparr>msg = ''Viagem reservada!'', resp_id = new_id,
                                 termino_estimado = data_fim_v\<rparr>))))))"

subsection \<open>Quote computation\<close>

text \<open>\<^verbatim>\<open>class Settings(BaseSettings)\<close>: the cost parameters (the two URL/agent strings are left out).\<close>

record Settings =
  PRECO_COMBUSTIVEL :: real
  SALARIO_MOTORISTA :: real
  VALOR_DIARIA_PADRAO :: real
  DIAS_UTEIS :: int
  MARGEM_LUCRO :: real

text \<open>
  \<^verbatim>\<open>class RouteRequest(BaseModel)\<close>. Its first three fields carry the prefix \<open>rq_\<close>,
  the names \<open>origem\<close>, \<open>destino\<close> and \<open>veiculo_id\<close> being fields of \<open>TripCreate\<close>.
\<close>

record RouteRequest =
  rq_origem :: string
  rq_destino :: string
  rq_veiculo_id :: string
  ida_e_volta :: bool
  preco_diesel_personalizado :: "real option"
  valor_diaria_personalizado :: "real option"

text \<open>
  \<^verbatim>\<open>class FinancialBreakdown(BaseModel)\<close>. The call of its constructor also passes
  \<^verbatim>\<open>custo_fixo_diario\<close>, which is not a field of the class and is dropped by pydantic.
\<close>

record FinancialBreakdown =
  custo_combustivel :: real
  litros_combustivel :: real
  paradas_abastecimento :: int
  custo_motorista_salario :: real
  custo_motorista_diarias :: real
  custo_motorista_total :: real
  custo_operacional_total :: real
  lucro_estimado :: real

text \<open>\<^verbatim>\<open>class RouteResponse(BaseModel)\<close>; \<open>resp_distancia_km\<close> is its field \<^verbatim>\<open>distancia_km\<close>.\<close>

record RouteResponse =
  resp_distancia_km :: real
  tempo_estimado_horas :: real
  dias_viagem_estimados :: int
  preco_final_frete :: real
  detalhes_financeiros :: FinancialBreakdown
  route_geometry :: "real list list option"
  coords_origem :: "real \<times> real"
  coords_destino :: "real \<times> real"
  veiculo_info :: truck

text \<open>
  Lines 311 to 356 of \<^verbatim>\<open>calculate_quote\<close>: everything after the route is known. The
  arguments \<open>distancia_km0\<close>, \<open>tempo_horas0\<close> and \<open>geometry\<close> are the three variables the
  route lookup has set. \<^verbatim>\<open>a or b\<close> on an optional float takes \<open>b\<close> when \<open>a\<close> is
  \<^verbatim>\<open>None\<close> or zero. An \<^verbatim>\<open>int\<close> operand of a float operation (the tank, the working
  days, the trip days) is first converted to a double.
\<close>

definition compute_quote ::
  "(real \<Rightarrow> real) \<Rightarrow> Settings \<Rightarrow> RouteRequest \<Rightarrow> truck \<Rightarrow> real \<Rightarrow> real
    \<Rightarrow> real list list option \<Rightarrow> real \<times> real \<Rightarrow> real \<times> real \<Rightarrow> error + RouteResponse" where
  "compute_quote rnd settings payload vehicle_data distancia_km0 tempo_horas0 geometry
     c_origem c_destino =
     (let distancia = (if ida_e_volta payload then distancia_km0 * 2 else distancia_km0);
          tempo_horas = (if ida_e_volta payload then tempo_horas0 * 2 else tempo_horas0);
          dias_viagem = max 1 \<lceil>tempo_horas / 8\<rceil>
      in case py_div rnd distancia (consumo vehicle_data) of
           Inl e \<Rightarrow> Inl e
         | Inr litros_total \<Rightarrow>
      (let tanque_v = tanque vehicle_data
       in case (if litros_total > of_int tanque_v
                then (case py_div rnd (fsub rnd litros_total (to_float rnd tanque_v))
                             (to_float rnd tanque_v) of
                        Inl e \<Rightarrow> Inl e
                      | Inr q \<Rightarrow> Inr \<lceil>q\<rceil>)
                else Inr 0) of
            Inl e \<Rightarrow> Inl e
          | Inr paradas \<Rightarrow>
      (let preco_diesel =
             (case preco_diesel_personalizado payload of
                None \<Rightarrow> PRECO_COMBUSTIVEL settings
              | Some p \<Rightarrow> if p = 0 then PRECO_COMBUSTIVEL settings else p);
           valor_diaria =
             (case valor_diaria_personalizado payload of
                Some v \<Rightarrow> v
              | None \<Rightarrow> VALOR_DIARIA_PADRAO settings);
           custo_combustivel_v = fmul rnd litros_total preco_diesel
       in case py_div rnd (SALARIO_MOTORISTA settings) (to_float rnd (DIAS_UTEIS settings)) of
            Inl e \<Rightarrow> Inl e
          | Inr salario_dia \<Rightarrow>
      (let custo_salario_proporcional = fmul rnd salario_dia (to_float rnd dias_viagem);
           custo_diarias = fmul rnd valor_diaria (to_float rnd dias_viagem);
           custo_motorista_total_v = fadd rnd custo_salario_proporcional custo_diarias;
           custo_total = fadd rnd custo_combustivel_v custo_motorista_total_v
       in case py_div rnd custo_total (fsub rnd 1 (MARGEM_LUCRO settings)) of
            Inl e \<Rightarrow> Inl e
          | Inr preco_venda \<Rightarrow>
      (let lucro_v = fsub rnd preco_venda custo_total
       in Inr \<lparr>resp_distancia_km = py_round rnd distancia 2,
                tempo_estimado_horas = py_round rnd tempo_horas 1,
                dias_viagem_estimados = dias_viagem,
                preco_final_frete = py_round rnd preco_venda 2,
                detalhes_financeiros =
                  \<lparr>custo_combustivel = py_round rnd custo_combustivel_v 2,
                   litros_combustivel = py_round rnd litros_total 2,
                   paradas_abastecimento = paradas,
                   custo_motorista_salario = py_round rnd custo_salario_proporcional 2,
                   custo_motorista_diarias = py_round rnd custo_diarias 2,
                   custo_motorista_total = py_round rnd custo_motorista_total_v 2,
                   custo_operacional_total = py_round rnd custo_total 2,
                   lucro_estimado = py_round rnd lucro_v 2\<rparr>,
                route_geometry = geometry,
                coords_origem = c_origem,
                coords_destino = c_destino,
                veiculo_info = vehicle_data\<rparr>)))))"

subsection \<open>Geocoding, routing and the quote endpoint\<close>

text \<open>
  What the OSRM request returns, as far as \<^verbatim>\<open>get_road_route\<close> reads it: the HTTP status,
  the field \<^verbatim>\<open>code\<close>, and of each route its \<^verbatim>\<open>distance\<close> (metres), \<^verbatim>\<open>duration\<close>
  (seconds) and the \<^verbatim>\<open>(lon, lat)\<close> pairs of its geometry.
\<close>

record osrm_route =
  distance :: real
  duration :: real
  coordinates :: "(real \<times> real) list"

record osrm_response =
  status_code :: int
  code :: string
  routes :: "osrm_route list"

record route_data =
  dist_km :: real
  duration_h :: real
  geometry :: "real list list"

text \<open>
  The collaborators: \<open>geocode\<close> is \<^verbatim>\<open>geolocator.geocode\<close> (an exception, \<^verbatim>\<open>None\<close>, or
  a location's latitude and longitude), \<open>osrm_get\<close> is the request with its JSON
  decoding (\<open>None\<close> when either raises), \<open>great_circle_km\<close> is
  \<^verbatim>\<open>great_circle(a, b).km\<close>, and \<open>str_exc\<close> is \<^verbatim>\<open>str\<close> on an exception.
\<close>

record env =
  geocode :: "string \<Rightarrow> error + (real \<times> real) option"
  osrm_get :: "real \<times> real \<Rightarrow> real \<times> real \<Rightarrow> osrm_response option"
  great_circle_km :: "real \<times> real \<Rightarrow> real \<times> real \<Rightarrow> real"
  str_exc :: "error \<Rightarrow> string"

text \<open>\<^verbatim>\<open>GeoService.get_coords\<close>.\<close>

definition get_coords :: "env \<Rightarrow> string \<Rightarrow> error + real \<times> real" where
  "get_coords ev city =
     (case geocode ev city of
        Inl e \<Rightarrow> Inl e
      | Inr None \<Rightarrow> Inl (HTTPException 404 (''Localizacao nao encontrada: '' @ city))
      | Inr (Some location) \<Rightarrow> Inr location)"

text \<open>\<^verbatim>\<open>RoutingService.get_road_route\<close>; every exception inside it gives \<^verbatim>\<open>None\<close>.\<close>

definition get_road_route ::
  "(real \<Rightarrow> real) \<Rightarrow> env \<Rightarrow> real \<times> real \<Rightarrow> real \<times> real \<Rightarrow> route_data option" where
  "get_road_route rnd ev origin dest =
     (case osrm_get ev origin dest of
        None \<Rightarrow> None
      | Some response \<Rightarrow>
          if status_code response \<noteq> 200 then None
          else if code response \<noteq> ''Ok'' then None
          else (case routes response of
                  [] \<Rightarrow> None
                | route # _ \<Rightarrow>
                    Some \<lparr>dist_km = fdiv rnd (distance route) 1000,
                          duration_h = fdiv rnd (duration route) 3600,
                          geometry = map (\<lambda>(lon, lat). [lat, lon]) (coordinates route)\<rparr>))"

text \<open>
  \<^verbatim>\<open>async def calculate_quote(payload: RouteRequest)\<close>. The \<^verbatim>\<open>try\<close> block around the
  two \<^verbatim>\<open>get_coords\<close> calls catches every \<^verbatim>\<open>Exception\<close>, the \<^verbatim>\<open>HTTPException\<close> of
  \<^verbatim>\<open>get_coords\<close> included, and raises \<^verbatim>\<open>HTTPException(status_code=500, detail=str(e))\<close>.
  The literal \<^verbatim>\<open>1.2\<close> is the double nearest to 12/10.
\<close>

definition calculate_quote ::
  "(real \<Rightarrow> real) \<Rightarrow> env \<Rightarrow> Settings \<Rightarrow> (string \<rightharpoonup> truck) \<Rightarrow> RouteRequest
    \<Rightarrow> error + RouteResponse" where
  "calculate_quote rnd ev settings trucks payload =
     (case trucks (rq_veiculo_id payload) of
        None \<Rightarrow> Inl (HTTPException 400 ''Veiculo nao encontrado.'')
      | Some vehicle_data \<Rightarrow>
          (case (case get_coords ev (rq_origem payload) of
                   Inl e \<Rightarrow> Inl e
                 | Inr c_origem \<Rightarrow>
                     (case get_coords ev (rq_destino payload) of
                        Inl e \<Rightarrow> Inl e
                      | Inr c_destino \<Rightarrow> Inr (c_origem, c_destino))) of
             Inl e \<Rightarrow> Inl (HTTPException 500 (str_exc ev e))
           | Inr (c_origem, c_destino) \<Rightarrow>
               (case get_road_route rnd ev c_origem c_destino of
                  Some rd \<Rightarrow>
                    compute_quote rnd settings payload vehicle_data (dist_km rd) (duration_h rd)
                      (Some (geometry rd)) c_origem c_destino
                | None \<Rightarrow>
                    (let distancia = fmul rnd (great_circle_km ev c_origem c_destino)
                                       (rnd (12 / 10));
                         tempo_horas = fdiv rnd distancia 70
                     in compute_quote rnd settings payload vehicle_data distancia tempo_horas
                          None c_origem c_destino))))"

section \<open>Notions of the specification\<close>

text \<open>
  The resource id that \<^verbatim>\<open>check_availability\<close> compares for a given \<^verbatim>\<open>resource_type\<close>,
  and the conflict test of the specification: the trip belongs to the resource and
  \<open>proposedStart < tripEnd\<close> and \<open>proposedEnd > tripStart\<close>.
\<close>

definition resource_of :: "string \<Rightarrow> trip_data \<Rightarrow> string" where
  "resource_of resource_type trip =
     (if resource_type = ''veiculo'' then veiculo_id trip else motorista_id trip)"

definition conflicts :: "string \<Rightarrow> datetime \<Rightarrow> datetime \<Rightarrow> string \<Rightarrow> trip_data \<Rightarrow> bool" where
  "conflicts resource_id start end_t resource_type trip \<longleftrightarrow>
     resource_of resource_type trip = resource_id \<and>
     start < data_fim trip \<and> end_t > data_inicio trip"

text \<open>Two half-open windows overlap when they share an instant.\<close>

definition overlap :: "datetime \<Rightarrow> datetime \<Rightarrow> datetime \<Rightarrow> datetime \<Rightarrow> bool" where
  "overlap s1 e1 s2 e2 \<longleftrightarrow> {s1..<e1} \<inter> {s2..<e2} \<noteq> {}"

definition compatible :: "trip_data \<Rightarrow> trip_data \<Rightarrow> bool" where
  "compatible a b \<longleftrightarrow>
     (veiculo_id a = veiculo_id b \<or> motorista_id a = motorista_id b \<longrightarrow>
      \<not> overlap (data_inicio a) (data_fim a) (data_inicio b) (data_fim b))"

definition no_overlap :: "trip_data list \<Rightarrow> bool" where
  "no_overlap ts \<longleftrightarrow>
     (\<forall>i < length ts. \<forall>j < length ts. i \<noteq> j \<longrightarrow> compatible (ts ! i) (ts ! j))"

text \<open>
  The booking window in the words of the specification:
  \<open>tripDays = max(1, ceil(travelHours / 8))\<close> with \<open>travelHours = distanceKm / 70\<close> (a
  division of doubles), and \<open>proposedEnd = proposedStart + tripDays days\<close>.
\<close>

definition trip_days :: "real \<Rightarrow> int" where
  "trip_days travel_hours = max 1 \<lceil>travel_hours / 8\<rceil>"

definition booking_days :: "(real \<Rightarrow> real) \<Rightarrow> real \<Rightarrow> int" where
  "booking_days rnd km = trip_days (fdiv rnd km 70)"

definition booking_end :: "(real \<Rightarrow> real) \<Rightarrow> TripCreate \<Rightarrow> datetime" where
  "booking_end rnd trip =
     data_inicio trip + booking_days rnd (distancia_km trip) * 86400000000"

text \<open>
  The window exists in Python: at most 999999999 days, and an end within the range of
  \<^verbatim>\<open>datetime\<close>.
\<close>

definition window_ok :: "(real \<Rightarrow> real) \<Rightarrow> TripCreate \<Rightarrow> bool" where
  "window_ok rnd trip \<longleftrightarrow>
     booking_days rnd (distancia_km trip) \<le> 999999999 \<and>
     0 \<le> booking_end rnd trip \<and> booking_end rnd trip \<le> datetime_max"

text \<open>
  The steps of the quote in the words of the specification, each operation a double
  operation: the distance and hours after the round-trip doubling, fuel liters, refuel
  stops, the costs and the sale price. \<open>preco_diesel_used\<close> is line 321 of the source
  (\<^verbatim>\<open>payload.preco_diesel_personalizado or settings.PRECO_COMBUSTIVEL\<close>), and
  \<open>override_or\<close> is "the override when one is provided, the default otherwise".
  \<open>quote_defined\<close> says that no division of the computation has a zero divisor.
\<close>

definition q_distancia :: "RouteRequest \<Rightarrow> real \<Rightarrow> real" where
  "q_distancia payload d = (if ida_e_volta payload then d * 2 else d)"

definition q_tempo :: "RouteRequest \<Rightarrow> real \<Rightarrow> real" where
  "q_tempo payload h = (if ida_e_volta payload then h * 2 else h)"

definition fuel_liters :: "(real \<Rightarrow> real) \<Rightarrow> truck \<Rightarrow> real \<Rightarrow> real" where
  "fuel_liters rnd vehicle km = fdiv rnd km (consumo vehicle)"

definition refuel_stops :: "(real \<Rightarrow> real) \<Rightarrow> real \<Rightarrow> int \<Rightarrow> int" where
  "refuel_stops rnd liters tank =
     (if liters > of_int tank
      then \<lceil>fdiv rnd (fsub rnd liters (to_float rnd tank)) (to_float rnd tank)\<rceil>
      else 0)"

definition preco_diesel_used :: "Settings \<Rightarrow> RouteRequest \<Rightarrow> real" where
  "preco_diesel_used settings payload =
     (case preco_diesel_personalizado payload of
        None \<Rightarrow> PRECO_COMBUSTIVEL settings
      | Some p \<Rightarrow> if p = 0 then PRECO_COMBUSTIVEL settings else p)"

definition override_or :: "real option \<Rightarrow> real \<Rightarrow> real" where
  "override_or override default_v = (case override of Some v \<Rightarrow> v | None \<Rightarrow> default_v)"

definition salary_share :: "(real \<Rightarrow> real) \<Rightarrow> Settings \<Rightarrow> real \<Rightarrow> real" where
  "salary_share rnd settings hours =
     fmul rnd (fdiv rnd (SALARIO_MOTORISTA settings) (to_float rnd (DIAS_UTEIS settings)))
       (to_float rnd (trip_days hours))"

definition per_diem_cost :: "(real \<Rightarrow> real) \<Rightarrow> Settings \<Rightarrow> RouteRequest \<Rightarrow> real \<Rightarrow> real" where
  "per_diem_cost rnd settings payload hours =
     fmul rnd (override_or (valor_diaria_personalizado payload) (VALOR_DIARIA_PADRAO settings))
       (to_float rnd (trip_days hours))"

definition fuel_cost :: "(real \<Rightarrow> real) \<Rightarrow> Settings \<Rightarrow> RouteRequest \<Rightarrow> truck \<Rightarrow> real \<Rightarrow> real" where
  "fuel_cost rnd settings payload vehicle km =
     fmul rnd (fuel_liters rnd vehicle km) (preco_diesel_used settings payload)"

definition driver_cost :: "(real \<Rightarrow> real) \<Rightarrow> Settings \<Rightarrow> RouteRequest \<Rightarrow> real \<Rightarrow> real" where
  "driver_cost rnd settings payload hours =
     fadd rnd (salary_share rnd settings hours) (per_diem_cost rnd settings payload hours)"

definition total_cost ::
  "(real \<Rightarrow> real) \<Rightarrow> Settings \<Rightarrow> RouteRequest \<Rightarrow> truck \<Rightarrow> real \<Rightarrow> real \<Rightarrow> real" where
  "total_cost rnd settings payload vehicle km hours =
     fadd rnd (fuel_cost rnd settings payload vehicle km) (driver_cost rnd settings payload hours)"

definition sale_price ::
  "(real \<Rightarrow> real) \<Rightarrow> Settings \<Rightarrow> RouteRequest \<Rightarrow> truck \<Rightarrow> real \<Rightarrow> real \<Rightarrow> real" where
  "sale_price rnd settings payload vehicle km hours =
     fdiv rnd (total_cost rnd settings payload vehicle km hours)
       (fsub rnd 1 (MARGEM_LUCRO settings))"

definition quote_result ::
  "(real \<Rightarrow> real) \<Rightarrow> Settings \<Rightarrow> RouteRequest \<Rightarrow> truck \<Rightarrow> real \<Rightarrow> real
    \<Rightarrow> real list list option \<Rightarrow> real \<times> real \<Rightarrow> real \<times> real \<Rightarrow> RouteResponse" where
  "quote_result rnd settings payload vehicle km hours g co cd =
     \<lparr>resp_distancia_km = py_round rnd km 2,
      tempo_estimado_horas = py_round rnd hours 1,
      dias_viagem_estimados = trip_days hours,
      preco_final_frete = py_round rnd (sale_price rnd settings payload vehicle km hours) 2,
      detalhes_financeiros =
        \<lparr>custo_combustivel = py_round rnd (fuel_cost rnd settings payload vehicle km) 2,
         litros_combustivel = py_round rnd (fuel_liters rnd vehicle km) 2,
         paradas_abastecimento = refuel_stops rnd (fuel_liters rnd vehicle km) (tanque vehicle),
         custo_motorista_salario = py_round rnd (salary_share rnd settings hours) 2,
         custo_motorista_diarias = py_round rnd (per_diem_cost rnd settings payload hours) 2,
         custo_motorista_total = py_round rnd (driver_cost rnd settings payload hours) 2,
         custo_operacional_total =
           py_round rnd (total_cost rnd settings payload vehicle km hours) 2,
         lucro_estimado =
           py_round rnd (fsub rnd (sale_price rnd settings payload vehicle km hours)
                           (total_cost rnd settings payload vehicle km hours)) 2\<rparr>,
      route_geometry = g, coords_origem = co, coords_destino = cd,
      veiculo_info = vehicle\<rparr>"

definition quote_defined :: "(real \<Rightarrow> real) \<Rightarrow> Settings \<Rightarrow> truck \<Rightarrow> real \<Rightarrow> bool" where
  "quote_defined rnd settings vehicle km \<longleftrightarrow>
     consumo vehicle \<noteq> 0 \<and>
     (fuel_liters rnd vehicle km > of_int (tanque vehicle) \<longrightarrow>
        to_float rnd (tanque vehicle) \<noteq> 0) \<and>
     to_float rnd (DIAS_UTEIS settings) \<noteq> 0 \<and>
     fsub rnd 1 (MARGEM_LUCRO settings) \<noteq> 0"

text \<open>The record a successful booking of \<open>trip\<close> adds to the store.\<close>

definition stored_trip :: "(real \<Rightarrow> real) \<Rightarrow> string \<Rightarrow> TripCreate \<Rightarrow> trip_data" where
  "stored_trip rnd new_id trip =
     \<lparr>origem = origem trip, destino = destino trip, distancia_km = distancia_km trip,
      preco_final = preco_final trip, lucro = lucro trip, custo_motorista = custo_motorista trip,
      veiculo_id = veiculo_id trip, motorista_id = motorista_id trip,
      data_inicio = data_inicio trip, paradas_previstas = paradas_previstas trip,
      trip_id = new_id, trip_status = ''Agendada'', data_fim = booking_end rnd trip,
      dias_duracao = booking_days rnd (distancia_km trip)\<rparr>"

text \<open>
  The states reachable from a store without trips (and any catalogs) by calls of
  \<open>book_trip\<close>, failed calls included.
\<close>

inductive reachable :: "(real \<Rightarrow> real) \<Rightarrow> (datetime \<Rightarrow> string) \<Rightarrow> db \<Rightarrow> bool"
  for rnd strftime where
  initial: "db_trips s = [] \<Longrightarrow> reachable rnd strftime s"
| booked: "reachable rnd strftime s \<Longrightarrow>
     reachable rnd strftime (fst (book_trip rnd strftime new_id trip s))"

section \<open>Example data\<close>

text \<open>The catalogs the module starts with, and an empty trip list.\<close>

definition vuc_01 :: truck where
  "vuc_01 = \<lparr>truck_id = ''vuc-01'', truck_nome = ''VUC (Veiculo Urbano)'', consumo = 6,
     tanque = 150, placa = ''ABC-1234'', truck_status = ''Disponivel''\<rparr>"

definition carreta_01 :: truck where
  "carreta_01 = \<lparr>truck_id = ''carreta-01'', truck_nome = ''Carreta LS'', consumo = 5 / 2,
     tanque = 600, placa = ''GHI-9012'', truck_status = ''Disponivel''\<rparr>"

definition mot_01 :: driver where
  "mot_01 = \<lparr>driver_id = ''mot-01'', driver_nome = ''Carlos Silva'', cnh = ''1234567890'',
     foto_url = ''https://ui-avatars.com/api/?name=Carlos+Silva&background=0D8ABC&color=fff'',
     driver_status = ''Disponivel''\<rparr>"

definition mot_02 :: driver where
  "mot_02 = \<lparr>driver_id = ''mot-02'', driver_nome = ''Ana Pereira'', cnh = ''0987654321'',
     foto_url = ''https://ui-avatars.com/api/?name=Ana+Pereira&background=random'',
     driver_status = ''Disponivel''\<rparr>"

definition initial_db :: db where
  "initial_db =
     \<lparr>db_trucks = [''vuc-01'' \<mapsto> vuc_01, ''carreta-01'' \<mapsto> carreta_01],
      db_drivers = [''mot-01'' \<mapsto> mot_01, ''mot-02'' \<mapsto> mot_02],
      db_trips = []\<rparr>"

text \<open>
  The examples compute with exact arithmetic; every result they state is also the
  result of the double computation on the same input.
\<close>

definition exact :: "real \<Rightarrow> real" where
  "exact x = x"

text \<open>
  One day in microseconds, the start of the last day of the year 9999, and a formatter
  that knows the first four days of the time line.
\<close>

definition last_day :: datetime where
  "last_day = 3652058 * 86400000000"

definition day :: int where
  "day = 86400000000"

definition ex_strftime :: "datetime \<Rightarrow> string" where
  "ex_strftime t =
     (if t = 0 then ''01/01 00:00'' else if t = day then ''02/01 00:00''
      else if t = 2 * day then ''03/01 00:00'' else if t = 3 * day then ''04/01 00:00''
      else ''--/-- --:--'')"

text \<open>A booking request for a vehicle and a driver, from a start instant over a distance.\<close>

definition ex_request :: "string \<Rightarrow> string \<Rightarrow> datetime \<Rightarrow> real \<Rightarrow> TripCreate" where
  "ex_request vid did start km =
     \<lparr>origem = ''Campinas'', destino = ''Curitiba'', distancia_km = km, preco_final = 2000,
      lucro = 600, custo_motorista = 500, veiculo_id = vid, motorista_id = did,
      data_inicio = start, paradas_previstas = 0\<rparr>"

text \<open>
  A trip list that is not in date order: the third and fourth of January first, then
  the first and second.
\<close>

definition ex_trips :: "trip_data list" where
  "ex_trips =
     [stored_trip exact ''a1'' (ex_request ''vuc-01'' ''mot-01'' (2 * day) 100),
      stored_trip exact ''b2'' (ex_request ''vuc-01'' ''mot-02'' 0 900)]"

text \<open>The default settings, a quote request, and a vehicle with a tank of 150.\<close>

definition ex_settings :: Settings where
  "ex_settings = \<lparr>PRECO_COMBUSTIVEL = 689 / 100, SALARIO_MOTORISTA = 2500,
     VALOR_DIARIA_PADRAO = 150, DIAS_UTEIS = 22, MARGEM_LUCRO = 3 / 10\<rparr>"

definition ex_payload :: RouteRequest where
  "ex_payload = \<lparr>rq_origem = ''Campinas'', rq_destino = ''Curitiba'', rq_veiculo_id = ''vuc-01'',
     ida_e_volta = False, preco_diesel_personalizado = None,
     valor_diaria_personalizado = None\<rparr>"

definition ex_tank150 :: truck where
  "ex_tank150 = \<lparr>truck_id = ''t150'', truck_nome = ''Toco'', consumo = 1, tanque = 150,
     placa = ''JKL-3456'', truck_status = ''Disponivel''\<rparr>"

text \<open>
  \<^verbatim>\<open>str\<close> of an exception: Starlette prints an \<^verbatim>\<open>HTTPException\<close> as its three-digit
  status code, a colon and the detail.
\<close>

definition digit_char :: "nat \<Rightarrow> char" where
  "digit_char n = char_of (48 + n)"

definition str_status :: "int \<Rightarrow> string" where
  "str_status c =
     (let n = nat c in [digit_char (n div 100), digit_char (n div 10 mod 10), digit_char (n mod 10)])"

definition starlette_str :: "error \<Rightarrow> string" where
  "starlette_str e =
     (case e of
        HTTPException c d \<Rightarrow> str_status c @ '': '' @ d
      | ZeroDivisionError \<Rightarrow> ''float division by zero''
      | LibraryError m \<Rightarrow> m)"

text \<open>
  Collaborators for the examples: a geocoder that knows two cities, a routing service
  that is down, and a great-circle distance of 750 km between any two points.
\<close>

definition ex_geocode :: "string \<Rightarrow> error + (real \<times> real) option" where
  "ex_geocode city =
     (if city = ''Campinas'' then Inr (Some (- 229 / 10, - 4706 / 100))
      else if city = ''Curitiba'' then Inr (Some (- 2543 / 100, - 4927 / 100))
      else Inr None)"

definition ex_env :: env where
  "ex_env = \<lparr>geocode = ex_geocode, osrm_get = (\<lambda>a b. None), great_circle_km = (\<lambda>a b. 750),
     str_exc = starlette_str\<rparr>"

text \<open>The store after one booking, and after a second one that starts when the first ends.\<close>

definition ex_s1 :: db where
  "ex_s1 =
     fst (book_trip exact ex_strftime ''a1'' (ex_request ''vuc-01'' ''mot-01'' 0 900) initial_db)"

definition ex_s2 :: db where
  "ex_s2 =
     fst (book_trip exact ex_strftime ''b2'' (ex_request ''vuc-01'' ''mot-02'' (2 * day) 100) ex_s1)"

section \<open>The conflict check\<close>

lemma resource_of_veiculo: "resource_of ''veiculo'' t = veiculo_id t"
  by (simp add: resource_of_def)

lemma resource_of_motorista: "resource_of ''motorista'' t = motorista_id t"
  by (simp add: resource_of_def)

lemma check_availability_ok:
  "fst (check_availability strftime trips resource_id start end_t resource_type) \<longleftrightarrow>
     (\<forall>t \<in> set trips. \<not> conflicts resource_id start end_t resource_type t)"
  by (induction trips) (simp_all add: conflicts_def resource_of_def Let_def)


lemma check_availability_first:
  assumes "\<forall>u \<in> set pre. \<not> conflicts resource_id start end_t resource_type u"
    and "conflicts resource_id start end_t resource_type t"
  shows "check_availability strftime (pre @ t # post) resource_id start end_t resource_type =
           (False, conflict_msg strftime resource_type (data_inicio t) (data_fim t))"
  using assms by (induction pre) (auto simp: conflicts_def resource_of_def Let_def)

lemma check_availability_free:
  assumes "\<forall>t \<in> set trips. \<not> conflicts resource_id start end_t resource_type t"
  shows "check_availability strftime trips resource_id start end_t resource_type =
           (True, ''Disponivel'')"
  using assms by (induction trips) (simp_all add: conflicts_def resource_of_def Let_def)

lemma booking_days_900: "booking_days exact 900 = 2"
  by (simp add: booking_days_def trip_days_def fdiv_def exact_def)

lemma booking_days_100: "booking_days exact 100 = 1"
  by (simp add: booking_days_def trip_days_def fdiv_def exact_def)

lemma capitalize_veiculo: "capitalize ''veiculo'' = ''Veiculo''"
  by code_simp


lemma ex_trips_eval:
  "ex_trips =
     [\<lparr>origem = ''Campinas'', destino = ''Curitiba'', distancia_km = 100, preco_final = 2000,
       lucro = 600, custo_motorista = 500, veiculo_id = ''vuc-01'', motorista_id = ''mot-01'',
       data_inicio = 2 * day, paradas_previstas = 0, trip_id = ''a1'',
       trip_status = ''Agendada'', data_fim = 3 * day, dias_duracao = 1\<rparr>,
      \<lparr>origem = ''Campinas'', destino = ''Curitiba'', distancia_km = 900, preco_final = 2000,
       lucro = 600, custo_motorista = 500, veiculo_id = ''vuc-01'', motorista_id = ''mot-02'',
       data_inicio = 0, paradas_previstas = 0, trip_id = ''b2'',
       trip_status = ''Agendada'', data_fim = 2 * day, dias_duracao = 2\<rparr>]"
  by (simp add: ex_trips_def stored_trip_def ex_request_def booking_end_def booking_days_900
      booking_days_100 day_def)

text \<open>
  Claim C2. \<open>check_availability\<close> reports a conflict exactly when some stored trip of
  the resource (its vehicle id for \<^verbatim>\<open>'veiculo'\<close>, its driver id otherwise) satisfies
  \<open>start < t_end\<close> and \<open>end > t_start\<close>; a trip whose window only touches the proposed
  one (\<open>start = t_end\<close> or \<open>end = t_start\<close>) is no conflict; the trip reported is the
  first conflicting one in list order; without a conflict the answer is
  \<^verbatim>\<open>(True, "Disponivel")\<close>.
\<close>

theorem check_availability_overlap_semantics:
  "(fst (check_availability strftime trips resource_id start end_t resource_type) = False \<longleftrightarrow>
      (\<exists>t \<in> set trips. resource_of resource_type t = resource_id \<and>
                         start < data_fim t \<and> end_t > data_inicio t))
   \<and> (\<forall>t \<in> set trips. resource_of resource_type t = resource_id \<longrightarrow>
          start = data_fim t \<or> end_t = data_inicio t \<longrightarrow>
          \<not> conflicts resource_id start end_t resource_type t)
   \<and> (\<forall>pre t post.
         trips = pre @ t # post \<and>
         (\<forall>u \<in> set pre. \<not> conflicts resource_id start end_t resource_type u) \<and>
         conflicts resource_id start end_t resource_type t \<longrightarrow>
         check_availability strftime trips resource_id start end_t resource_type =
           (False, conflict_msg strftime resource_type (data_inicio t) (data_fim t)))
   \<and> ((\<forall>t \<in> set trips. \<not> conflicts resource_id start end_t resource_type t) \<longrightarrow>
         check_availability strftime trips resource_id start end_t resource_type =
           (True, ''Disponivel''))"
proof -
  have a: "fst (check_availability strftime trips resource_id start end_t resource_type) = False
      \<longleftrightarrow> (\<exists>t \<in> set trips. resource_of resource_type t = resource_id \<and>
                         start < data_fim t \<and> end_t > data_inicio t)"
    by (auto simp: check_availability_ok conflicts_def)
  have b: "\<forall>t \<in> set trips. resource_of resource_type t = resource_id \<longrightarrow>
          start = data_fim t \<or> end_t = data_inicio t \<longrightarrow>
          \<not> conflicts resource_id start end_t resource_type t"
    by (auto simp: conflicts_def)
  have c: "\<forall>pre t post.
         trips = pre @ t # post \<and>
         (\<forall>u \<in> set pre. \<not> conflicts resource_id start end_t resource_type u) \<and>
         conflicts resource_id start end_t resource_type t \<longrightarrow>
         check_availability strftime trips resource_id start end_t resource_type =
           (False, conflict_msg strftime resource_type (data_inicio t) (data_fim t))"
    using check_availability_first by blast
  have d: "(\<forall>t \<in> set trips. \<not> conflicts resource_id start end_t resource_type t) \<longrightarrow>
         check_availability strftime trips resource_id start end_t resource_type =
           (True, ''Disponivel'')"
    using check_availability_free by blast
  from a b c d show ?thesis by blast
qed

theorem check_availability_overlap_semantics_witness:
  "conflicts ''vuc-01'' day (3 * day) ''veiculo'' (ex_trips ! 0)
   \<and> conflicts ''vuc-01'' day (3 * day) ''veiculo'' (ex_trips ! 1)
   \<and> data_inicio (ex_trips ! 1) < data_inicio (ex_trips ! 0)
   \<and> check_availability ex_strftime ex_trips ''vuc-01'' day (3 * day) ''veiculo'' =
       (False, ''Veiculo ja reservado de 03/01 00:00 ate 04/01 00:00'')
   \<and> 3 * day = data_fim (ex_trips ! 0)
   \<and> \<not> conflicts ''vuc-01'' (3 * day) (4 * day) ''veiculo'' (ex_trips ! 0)
   \<and> check_availability ex_strftime ex_trips ''vuc-01'' (3 * day) (4 * day) ''veiculo'' =
       (True, ''Disponivel'')"
proof -
  have split: "ex_trips = [] @ (ex_trips ! 0) # [ex_trips ! 1]"
    by (simp add: ex_trips_def)
  have c0: "conflicts ''vuc-01'' day (3 * day) ''veiculo'' (ex_trips ! 0)"
    and c1: "conflicts ''vuc-01'' day (3 * day) ''veiculo'' (ex_trips ! 1)"
    and order: "data_inicio (ex_trips ! 1) < data_inicio (ex_trips ! 0)"
    by (simp_all add: ex_trips_eval conflicts_def resource_of_def day_def)
  have "check_availability ex_strftime ex_trips ''vuc-01'' day (3 * day) ''veiculo'' =
      (False, conflict_msg ex_strftime ''veiculo'' (data_inicio (ex_trips ! 0))
         (data_fim (ex_trips ! 0)))"
    using check_availability_overlap_semantics
      [of ex_strftime ex_trips "''vuc-01''" day "3 * day" "''veiculo''"] split c0
    by (metis empty_iff list.set(1))
  then have first: "check_availability ex_strftime ex_trips ''vuc-01'' day (3 * day) ''veiculo'' =
      (False, ''Veiculo ja reservado de 03/01 00:00 ate 04/01 00:00'')"
    by (simp add: ex_trips_eval conflict_msg_def capitalize_veiculo ex_strftime_def day_def
        del: capitalize.simps)
  have touch: "3 * day = data_fim (ex_trips ! 0)"
    by (simp add: ex_trips_eval)
  have free: "\<forall>t \<in> set ex_trips. \<not> conflicts ''vuc-01'' (3 * day) (4 * day) ''veiculo'' t"
    by (simp add: ex_trips_eval conflicts_def resource_of_def day_def)
  then have n0: "\<not> conflicts ''vuc-01'' (3 * day) (4 * day) ''veiculo'' (ex_trips ! 0)"
    by (simp add: ex_trips_def)
  have avail: "check_availability ex_strftime ex_trips ''vuc-01'' (3 * day) (4 * day) ''veiculo'' =
       (True, ''Disponivel'')"
    using check_availability_overlap_semantics
      [of ex_strftime ex_trips "''vuc-01''" "3 * day" "4 * day" "''veiculo''"] free
    by blast
  from c0 c1 order first touch n0 avail show ?thesis by blast
qed

section \<open>The booking flow\<close>

lemma extend_trip:
  "TripCreate.extend trip (trip_data.fields i st f d) =
     \<lparr>origem = origem trip, destino = destino trip, distancia_km = distancia_km trip,
      preco_final = preco_final trip, lucro = lucro trip, custo_motorista = custo_motorista trip,
      veiculo_id = veiculo_id trip, motorista_id = motorista_id trip,
      data_inicio = data_inicio trip, paradas_previstas = paradas_previstas trip,
      trip_id = i, trip_status = st, data_fim = f, dias_duracao = d\<rparr>"
  by (cases trip) (simp add: TripCreate.defs trip_data.defs)

lemma booking_days_pos: "1 \<le> booking_days rnd km"
  by (simp add: booking_days_def trip_days_def)

lemma book_trip_unfold:
  "book_trip rnd strftime new_id trip s =
     (if \<not> window_ok rnd trip then (s, Inl OverflowError)
      else if \<not> fst (check_availability strftime (db_trips s) (veiculo_id trip) (data_inicio trip)
                  (booking_end rnd trip) ''veiculo'')
      then (s, Inl (HTTPException 409 (''Conflito: '' @
              snd (check_availability strftime (db_trips s) (veiculo_id trip) (data_inicio trip)
                     (booking_end rnd trip) ''veiculo''))))
      else if \<not> fst (check_availability strftime (db_trips s) (motorista_id trip)
                        (data_inicio trip) (booking_end rnd trip) ''motorista'')
      then (s, Inl (HTTPException 409 (''Conflito: '' @
              snd (check_availability strftime (db_trips s) (motorista_id trip) (data_inicio trip)
                     (booking_end rnd trip) ''motorista''))))
      else (\<lparr>db_trucks = book_truck (veiculo_id trip) (db_trucks s),
             db_drivers = book_driver (motorista_id trip) (db_drivers s),
             db_trips = db_trips s @ [stored_trip rnd new_id trip]\<rparr>,
            Inr \<lparr>msg = ''Viagem reservada!'', resp_id = new_id,
                 termino_estimado = booking_end rnd trip\<rparr>))"
proof -
  let ?n = "booking_days rnd (distancia_km trip)"
  have days: "(if \<lceil>fdiv rnd (distancia_km trip) 70 / 8\<rceil> < 1 then 1
               else \<lceil>fdiv rnd (distancia_km trip) 70 / 8\<rceil>) = ?n"
    by (simp add: booking_days_def trip_days_def max_def)
  have td: "timedelta_days ?n =
      (if ?n \<le> 999999999 then Inr (?n * 86400000000) else Inl OverflowError)"
    using booking_days_pos [of rnd "distancia_km trip"] by (simp add: timedelta_days_def)
  have da: "datetime_add (data_inicio trip) (?n * 86400000000) =
      (if 0 \<le> booking_end rnd trip \<and> booking_end rnd trip \<le> datetime_max
       then Inr (booking_end rnd trip) else Inl OverflowError)"
    by (simp add: datetime_add_def booking_end_def Let_def)
  show ?thesis
    unfolding book_trip_def Let_def days td extend_trip
    by (simp add: da window_ok_def split_beta stored_trip_def)
qed


lemma compatible_sym: "compatible a b \<Longrightarrow> compatible b a"
  by (auto simp: compatible_def overlap_def)

lemma no_overlap_snoc:
  assumes "no_overlap ts" and "\<forall>t \<in> set ts. compatible t x"
  shows "no_overlap (ts @ [x])"
  unfolding no_overlap_def
proof (intro allI impI)
  fix i j
  assume i: "i < length (ts @ [x])" and j: "j < length (ts @ [x])" and ne: "i \<noteq> j"
  consider "i < length ts" "j < length ts" | "i < length ts" "j = length ts"
    | "i = length ts" "j < length ts"
    using i j ne by force
  then show "compatible ((ts @ [x]) ! i) ((ts @ [x]) ! j)"
  proof cases
    case 1
    then show ?thesis using assms(1) ne by (simp add: no_overlap_def nth_append)
  next
    case 2
    then show ?thesis using assms(2) by (simp add: nth_append)
  next
    case 3
    then show ?thesis using assms(2) compatible_sym by (simp add: nth_append)
  qed
qed

lemma disjoint_windows:
  "\<not> (start < t_end \<and> end_t > t_start) \<Longrightarrow> \<not> overlap t_start t_end start end_t"
  by (auto simp: overlap_def)

lemma passed_checks_compatible:
  assumes v: "fst (check_availability strftime trips (veiculo_id trip) (data_inicio trip)
                     (booking_end rnd trip) ''veiculo'')"
    and d: "fst (check_availability strftime trips (motorista_id trip) (data_inicio trip)
                     (booking_end rnd trip) ''motorista'')"
    and t: "t \<in> set trips"
  shows "compatible t (stored_trip rnd new_id trip)"
proof -
  have a: "veiculo_id t = veiculo_id trip \<Longrightarrow>
        \<not> (data_inicio trip < data_fim t \<and> booking_end rnd trip > data_inicio t)"
    using v t by (auto simp: check_availability_ok conflicts_def resource_of_veiculo)
  have b: "motorista_id t = motorista_id trip \<Longrightarrow>
        \<not> (data_inicio trip < data_fim t \<and> booking_end rnd trip > data_inicio t)"
    using d t by (auto simp: check_availability_ok conflicts_def resource_of_motorista)
  show ?thesis
    using a b disjoint_windows[where start = "data_inicio trip" and t_end = "data_fim t"
        and end_t = "booking_end rnd trip" and t_start = "data_inicio t"]
    by (simp add: compatible_def stored_trip_def)
qed

lemma book_trip_no_overlap:
  assumes "no_overlap (db_trips s)"
  shows "no_overlap (db_trips (fst (book_trip rnd strftime new_id trip s)))"
  using assms
  by (auto simp: book_trip_unfold intro!: no_overlap_snoc passed_checks_compatible)

lemma reachable_no_overlap: "reachable rnd strftime s \<Longrightarrow> no_overlap (db_trips s)"
proof (induction rule: reachable.induct)
  case (initial s)
  then show ?case by (simp add: no_overlap_def)
next
  case (booked s new_id trip)
  then show ?case by (simp add: book_trip_no_overlap)
qed

lemma booking_end_ex:
  "booking_end exact (ex_request vid did start 100) = start + day"
  "booking_end exact (ex_request vid did start 900) = start + 2 * day"
  by (simp_all add: booking_end_def ex_request_def booking_days_100 booking_days_900 day_def)

lemma ex_request_ids:
  "veiculo_id (ex_request vid did start km) = vid"
  "motorista_id (ex_request vid did start km) = did"
  "data_inicio (ex_request vid did start km) = start"
  "distancia_km (ex_request vid did start km) = km"
  by (simp_all add: ex_request_def)

lemma window_ok_ex:
  "window_ok exact (ex_request vid did 0 900)"
  "window_ok exact (ex_request vid did day 100)"
  "window_ok exact (ex_request vid did (2 * day) 100)"
  "\<not> window_ok exact (ex_request vid did last_day 100)"
  by (simp_all add: window_ok_def booking_end_ex ex_request_ids booking_days_100 booking_days_900
      day_def last_day_def datetime_max_def)

lemma ex_s1_trips:
  "db_trips ex_s1 = [stored_trip exact ''a1'' (ex_request ''vuc-01'' ''mot-01'' 0 900)]"
  by (simp add: ex_s1_def book_trip_unfold initial_db_def window_ok_ex)

lemma ex_s2_trips:
  "db_trips ex_s2 = [stored_trip exact ''a1'' (ex_request ''vuc-01'' ''mot-01'' 0 900),
                     stored_trip exact ''b2'' (ex_request ''vuc-01'' ''mot-02'' (2 * day) 100)]"
  by (simp add: ex_s2_def book_trip_unfold ex_s1_trips stored_trip_def ex_request_def
      booking_end_def booking_days_900 booking_days_100 day_def Let_def window_ok_def
      datetime_max_def)

text \<open>
  Claim C1. In every state reachable from a store without trips by calls of \<open>book_trip\<close>,
  two stored trips (at different positions of the list) that name the same vehicle or the
  same driver have disjoint half-open windows \<open>[data_inicio, data_fim)\<close>.
\<close>

theorem reachable_trips_never_overlap:
  assumes "reachable rnd strftime s"
    and "i < length (db_trips s)" and "j < length (db_trips s)" and "i \<noteq> j"
    and "veiculo_id (db_trips s ! i) = veiculo_id (db_trips s ! j) \<or>
         motorista_id (db_trips s ! i) = motorista_id (db_trips s ! j)"
  shows "{data_inicio (db_trips s ! i) ..< data_fim (db_trips s ! i)} \<inter>
         {data_inicio (db_trips s ! j) ..< data_fim (db_trips s ! j)} = {}"
  using reachable_no_overlap[OF assms(1)] assms(2-5)
  by (auto simp: no_overlap_def compatible_def overlap_def)

theorem reachable_trips_never_overlap_witness:
  "reachable exact ex_strftime ex_s2
   \<and> length (db_trips ex_s2) = 2
   \<and> veiculo_id (db_trips ex_s2 ! 0) = ''vuc-01'' \<and> veiculo_id (db_trips ex_s2 ! 1) = ''vuc-01''
   \<and> data_inicio (db_trips ex_s2 ! 0) = 0 \<and> data_fim (db_trips ex_s2 ! 0) = 2 * day
   \<and> data_inicio (db_trips ex_s2 ! 1) = 2 * day \<and> data_fim (db_trips ex_s2 ! 1) = 3 * day
   \<and> {data_inicio (db_trips ex_s2 ! 0) ..< data_fim (db_trips ex_s2 ! 0)} \<inter>
       {data_inicio (db_trips ex_s2 ! 1) ..< data_fim (db_trips ex_s2 ! 1)} = {}"
proof -
  have "reachable exact ex_strftime initial_db"
    by (rule reachable.initial) (simp add: initial_db_def)
  then have "reachable exact ex_strftime ex_s1"
    unfolding ex_s1_def by (rule reachable.booked)
  then have r: "reachable exact ex_strftime ex_s2"
    unfolding ex_s2_def by (rule reachable.booked)
  have len: "length (db_trips ex_s2) = 2"
    by (simp add: ex_s2_trips)
  have ids: "veiculo_id (db_trips ex_s2 ! 0) = ''vuc-01''" "veiculo_id (db_trips ex_s2 ! 1) = ''vuc-01''"
    by (simp_all add: ex_s2_trips stored_trip_def ex_request_def)
  have w: "data_inicio (db_trips ex_s2 ! 0) = 0" "data_fim (db_trips ex_s2 ! 0) = 2 * day"
    "data_inicio (db_trips ex_s2 ! 1) = 2 * day" "data_fim (db_trips ex_s2 ! 1) = 3 * day"
    by (simp_all add: ex_s2_trips stored_trip_def ex_request_def booking_end_def
        booking_days_900 booking_days_100 day_def)
  have "{data_inicio (db_trips ex_s2 ! 0) ..< data_fim (db_trips ex_s2 ! 0)} \<inter>
       {data_inicio (db_trips ex_s2 ! 1) ..< data_fim (db_trips ex_s2 ! 1)} = {}"
    using reachable_trips_never_overlap[OF r, of 0 1] len ids by simp
  with r len ids w show ?thesis by simp
qed











section \<open>The quote computation\<close>

lemmas float_ops = fadd_def fsub_def fmul_def fdiv_def to_float_def

lemmas quote_notions =
  q_distancia_def q_tempo_def trip_days_def fuel_liters_def refuel_stops_def
  preco_diesel_used_def override_or_def salary_share_def per_diem_cost_def fuel_cost_def
  driver_cost_def total_cost_def sale_price_def quote_result_def quote_defined_def

lemma compute_quote_unfold:
  "compute_quote rnd settings payload vehicle d h g co cd =
     (if quote_defined rnd settings vehicle (q_distancia payload d)
      then Inr (quote_result rnd settings payload vehicle (q_distancia payload d)
                  (q_tempo payload h) g co cd)
      else Inl ZeroDivisionError)"
  unfolding compute_quote_def py_div_def Let_def quote_notions
  by (simp split: option.splits)

lemma quote_result_fields:
  "dias_viagem_estimados (quote_result rnd settings payload vehicle km hours g co cd) =
     trip_days hours"
  "paradas_abastecimento
     (detalhes_financeiros (quote_result rnd settings payload vehicle km hours g co cd)) =
     refuel_stops rnd (fuel_liters rnd vehicle km) (tanque vehicle)"
  "custo_combustivel
     (detalhes_financeiros (quote_result rnd settings payload vehicle km hours g co cd)) =
     py_round rnd (fuel_cost rnd settings payload vehicle km) 2"
  "custo_motorista_diarias
     (detalhes_financeiros (quote_result rnd settings payload vehicle km hours g co cd)) =
     py_round rnd (per_diem_cost rnd settings payload hours) 2"
  "preco_final_frete (quote_result rnd settings payload vehicle km hours g co cd) =
     py_round rnd (sale_price rnd settings payload vehicle km hours) 2"
  by (simp_all add: quote_result_def)

lemma exact_ops:
  "fadd exact a b = a + b" "fsub exact a b = a - b" "fmul exact a b = a * b"
  "fdiv exact a b = a / b" "to_float exact n = of_int n"
  by (simp_all add: float_ops exact_def)

lemma quote_defined_ex:
  "quote_defined exact ex_settings vuc_01 900"
  "quote_defined exact ex_settings ex_tank150 km"
  by (simp_all add: quote_defined_def ex_settings_def vuc_01_def ex_tank150_def fuel_liters_def
      exact_ops)

lemma q_ex_payload: "q_distancia ex_payload d = d" "q_tempo ex_payload h = h"
  by (simp_all add: q_distancia_def q_tempo_def ex_payload_def)

text \<open>
  Claim C5. A round-trip quote on distance \<open>d\<close> and hours \<open>h\<close> is the one-way quote
  on \<open>2 * d\<close> and \<open>2 * h\<close>, error or response alike: the doubling comes before the
  trip days, the fuel liters and the refuel stops.
\<close>

theorem round_trip_doubling:
  "compute_quote rnd settings (payload\<lparr>ida_e_volta := True\<rparr>) vehicle d h g co cd =
   compute_quote rnd settings (payload\<lparr>ida_e_volta := False\<rparr>) vehicle (2 * d) (2 * h) g co cd"
  by (simp add: compute_quote_unfold quote_notions mult.commute)

theorem round_trip_doubling_witness:
  "compute_quote exact ex_settings (ex_payload\<lparr>ida_e_volta := True\<rparr>) vuc_01 450 6 None
      (0, 0) (1, 1) =
     Inr (quote_result exact ex_settings ex_payload vuc_01 900 12 None (0, 0) (1, 1))
   \<and> dias_viagem_estimados
       (quote_result exact ex_settings ex_payload vuc_01 900 12 None (0, 0) (1, 1)) = 2
   \<and> trip_days 6 = 1"
proof -
  have "compute_quote exact ex_settings (ex_payload\<lparr>ida_e_volta := False\<rparr>) vuc_01 (2 * 450)
          (2 * 6) None (0, 0) (1, 1) =
        Inr (quote_result exact ex_settings ex_payload vuc_01 900 12 None (0, 0) (1, 1))"
    by (simp add: compute_quote_unfold quote_defined_ex q_distancia_def q_tempo_def)
      (simp add: quote_notions ex_payload_def)
  then have "compute_quote exact ex_settings (ex_payload\<lparr>ida_e_volta := True\<rparr>) vuc_01 450 6 None
      (0, 0) (1, 1) =
     Inr (quote_result exact ex_settings ex_payload vuc_01 900 12 None (0, 0) (1, 1))"
    using round_trip_doubling
      [of exact ex_settings ex_payload vuc_01 450 6 None "(0, 0)" "(1, 1)"]
    by simp
  moreover have "dias_viagem_estimados
      (quote_result exact ex_settings ex_payload vuc_01 900 12 None (0, 0) (1, 1)) = 2"
    by (simp add: quote_result_fields trip_days_def)
  moreover have "trip_days 6 = 1"
    by (simp add: trip_days_def)
  ultimately show ?thesis by blast
qed



lemma trip_days_examples:
  "trip_days (1 / 2) = 1" "trip_days 8 = 1" "trip_days (81 / 10) = 2" "trip_days 16 = 2"
  by (simp_all add: trip_days_def ceiling_eq_iff)

lemma last_day_overflows: "\<not> window_ok rnd (ex_request vid did last_day km)"
  using booking_days_pos [of rnd km]
  by (simp add: window_ok_def booking_end_def ex_request_ids last_day_def datetime_max_def)

text \<open>
  Claim C7, as stated, fails for a booking that starts on the last day of the year 9999:
  the start is a valid timestamp and the trip takes one day, but the end of the window
  is outside Python's \<^verbatim>\<open>datetime\<close>, so line 262 raises \<^verbatim>\<open>OverflowError\<close> and no
  window is derived, whatever the rounding.
\<close>

theorem booking_window_counterexample:
  "0 \<le> last_day \<and> last_day \<le> datetime_max
   \<and> max 1 \<lceil>(100 / 70) / (8 :: real)\<rceil> = 1
   \<and> db_trips initial_db = []
   \<and> (\<forall>rnd. book_trip rnd ex_strftime ''e5'' (ex_request ''vuc-01'' ''mot-01'' last_day 100)
               initial_db = (initial_db, Inl OverflowError))"
proof -
  have a: "0 \<le> last_day" "last_day \<le> datetime_max"
    by (simp_all add: last_day_def datetime_max_def)
  have b: "max 1 \<lceil>(100 / 70) / (8 :: real)\<rceil> = 1"
    by (simp add: ceiling_eq_iff)
  have c: "db_trips initial_db = []"
    by (simp add: initial_db_def)
  have d: "\<forall>rnd. book_trip rnd ex_strftime ''e5'' (ex_request ''vuc-01'' ''mot-01'' last_day 100)
               initial_db = (initial_db, Inl OverflowError)"
    by (simp add: book_trip_unfold last_day_overflows)
  from a b c d show ?thesis by blast
qed

text \<open>
  Claim C7, amended. A returned quote has \<open>max(1, ceil(travelHours / 8))\<close> trip days, the
  hours being those after the round-trip doubling. A booking derives
  \<open>travelHours = distanceKm / 70\<close> (a division of doubles),
  \<open>tripDays = max(1, ceil(travelHours / 8))\<close> and
  \<open>proposedEnd = proposedStart + tripDays\<close> days. When \<open>tripDays\<close> is at most 999999999
  and \<open>proposedEnd\<close> is a \<^verbatim>\<open>datetime\<close> (not after 9999-12-31T23:59:59.999999), the two
  conflict checks run on that window, and a successful booking returns and stores that
  end and that number of days; otherwise the call raises \<^verbatim>\<open>OverflowError\<close> and changes
  nothing.
\<close>

theorem trip_days_in_both_flows:
  "(\<forall>r. compute_quote rnd settings payload vehicle d h g co cd = Inr r \<longrightarrow>
        dias_viagem_estimados r = max 1 \<lceil>q_tempo payload h / 8\<rceil>)
   \<and> (let travel_hours = fdiv rnd (distancia_km trip) 70;
           days = max 1 \<lceil>travel_hours / 8\<rceil>;
           proposed_end = data_inicio trip + days * 86400000000;
           in_range = (days \<le> 999999999 \<and> 0 \<le> proposed_end \<and> proposed_end \<le> datetime_max);
           r = book_trip rnd strftime new_id trip s
       in (\<not> in_range \<longrightarrow> r = (s, Inl OverflowError))
        \<and> (in_range \<longrightarrow>
             (isl (snd r) \<longleftrightarrow>
                \<not> fst (check_availability strftime (db_trips s) (veiculo_id trip)
                         (data_inicio trip) proposed_end ''veiculo'') \<or>
                \<not> fst (check_availability strftime (db_trips s) (motorista_id trip)
                         (data_inicio trip) proposed_end ''motorista'')))
        \<and> (\<forall>resp. snd r = Inr resp \<longrightarrow>
              in_range \<and>
              termino_estimado resp = proposed_end \<and>
              db_trips (fst r) = db_trips s @ [stored_trip rnd new_id trip] \<and>
              data_inicio (stored_trip rnd new_id trip) = data_inicio trip \<and>
              data_fim (stored_trip rnd new_id trip) = proposed_end \<and>
              dias_duracao (stored_trip rnd new_id trip) = days))"
proof -
  have q: "\<forall>r. compute_quote rnd settings payload vehicle d h g co cd = Inr r \<longrightarrow>
        dias_viagem_estimados r = max 1 \<lceil>q_tempo payload h / 8\<rceil>"
    by (auto simp: compute_quote_unfold quote_result_fields trip_days_def split: if_splits)
  have n: "max 1 \<lceil>fdiv rnd (distancia_km trip) 70 / 8\<rceil> = booking_days rnd (distancia_km trip)"
    by (simp add: booking_days_def trip_days_def)
  have e: "data_inicio trip + booking_days rnd (distancia_km trip) * 86400000000 =
      booking_end rnd trip"
    by (simp add: booking_end_def)
  have w: "(booking_days rnd (distancia_km trip) \<le> 999999999 \<and> 0 \<le> booking_end rnd trip \<and>
      booking_end rnd trip \<le> datetime_max) = window_ok rnd trip"
    by (simp add: window_ok_def)
  have st: "data_inicio (stored_trip rnd new_id trip) = data_inicio trip"
    "data_fim (stored_trip rnd new_id trip) = booking_end rnd trip"
    "dias_duracao (stored_trip rnd new_id trip) = booking_days rnd (distancia_km trip)"
    by (simp_all add: stored_trip_def)
  show ?thesis
    unfolding Let_def n e w
    using q st by (auto simp: book_trip_unfold)
qed

theorem trip_days_in_both_flows_witness:
  "(\<exists>r. compute_quote exact ex_settings ex_payload ex_tank150 35 (1 / 2) None (0, 0) (1, 1) = Inr r \<and>
        dias_viagem_estimados r = 1)
   \<and> (\<exists>r. compute_quote exact ex_settings ex_payload ex_tank150 560 8 None (0, 0) (1, 1) = Inr r \<and>
        dias_viagem_estimados r = 1)
   \<and> (\<exists>r. compute_quote exact ex_settings ex_payload ex_tank150 567 (81 / 10) None (0, 0) (1, 1) =
            Inr r \<and> dias_viagem_estimados r = 2)
   \<and> (\<exists>r. compute_quote exact ex_settings ex_payload ex_tank150 1120 16 None (0, 0) (1, 1) = Inr r \<and>
        dias_viagem_estimados r = 2)
   \<and> book_trip exact ex_strftime ''a1'' (ex_request ''vuc-01'' ''mot-01'' 0 900) initial_db =
       (ex_s1, Inr \<lparr>msg = ''Viagem reservada!'', resp_id = ''a1'', termino_estimado = 2 * day\<rparr>)
   \<and> map (\<lambda>t. (data_inicio t, data_fim t, dias_duracao t)) (db_trips ex_s1) = [(0, 2 * day, 2)]
   \<and> book_trip exact ex_strftime ''e5'' (ex_request ''vuc-01'' ''mot-01'' last_day 100) ex_s1 =
       (ex_s1, Inl OverflowError)"
proof -
  have ok: "\<And>km hs. compute_quote exact ex_settings ex_payload ex_tank150 km hs None (0, 0) (1, 1) =
      Inr (quote_result exact ex_settings ex_payload ex_tank150 km hs None (0, 0) (1, 1))"
    by (simp add: compute_quote_unfold quote_defined_ex q_ex_payload)
  have f: "dias_viagem_estimados
        (quote_result exact ex_settings ex_payload ex_tank150 km hs None (0, 0) (1, 1)) =
      max 1 \<lceil>hs / 8\<rceil>" for km hs
    using trip_days_in_both_flows
      [of exact ex_settings ex_payload ex_tank150 km hs None "(0, 0)" "(1, 1)",
        THEN conjunct1, rule_format, OF ok]
    by (simp add: q_ex_payload)
  have days: "dias_viagem_estimados
        (quote_result exact ex_settings ex_payload ex_tank150 35 (1 / 2) None (0, 0) (1, 1)) = 1"
    "dias_viagem_estimados
        (quote_result exact ex_settings ex_payload ex_tank150 560 8 None (0, 0) (1, 1)) = 1"
    "dias_viagem_estimados
        (quote_result exact ex_settings ex_payload ex_tank150 567 (81 / 10) None (0, 0) (1, 1)) = 2"
    "dias_viagem_estimados
        (quote_result exact ex_settings ex_payload ex_tank150 1120 16 None (0, 0) (1, 1)) = 2"
    unfolding f using trip_days_examples by (simp_all add: trip_days_def)
  let ?t = "ex_request ''vuc-01'' ''mot-01'' 0 900"
  let ?r = "book_trip exact ex_strftime ''a1'' ?t initial_db"
  have empty: "db_trips initial_db = []"
    by (simp add: initial_db_def)
  have rng: "max 1 \<lceil>fdiv exact (distancia_km ?t) 70 / 8\<rceil> \<le> 999999999 \<and>
      0 \<le> data_inicio ?t + max 1 \<lceil>fdiv exact (distancia_km ?t) 70 / 8\<rceil> * 86400000000 \<and>
      data_inicio ?t + max 1 \<lceil>fdiv exact (distancia_km ?t) 70 / 8\<rceil> * 86400000000
        \<le> datetime_max"
    by (simp add: ex_request_ids exact_ops datetime_max_def)
  note booking = trip_days_in_both_flows
      [of exact ex_settings ex_payload ex_tank150 0 0 None "(0, 0)" "(1, 1)" ?t ex_strftime
        "''a1''" initial_db, THEN conjunct2, unfolded Let_def]
  have "\<not> isl (snd ?r)"
    using booking [THEN conjunct2, THEN conjunct1] rng by (simp add: empty)
  then obtain resp where resp: "snd ?r = Inr resp"
    by (cases "snd ?r") simp_all
  have "termino_estimado resp =
      data_inicio ?t + max 1 \<lceil>fdiv exact (distancia_km ?t) 70 / 8\<rceil> * 86400000000"
    using booking [THEN conjunct2, THEN conjunct2, rule_format, OF resp] by blast
  then have fim: "termino_estimado resp = 2 * day"
    by (simp add: ex_request_def day_def exact_ops)
  have "snd ?r = Inr \<lparr>msg = ''Viagem reservada!'', resp_id = ''a1'',
      termino_estimado = booking_end exact ?t\<rparr>"
    by (simp add: book_trip_unfold empty window_ok_ex)
  with resp fim have "snd ?r = Inr \<lparr>msg = ''Viagem reservada!'', resp_id = ''a1'',
      termino_estimado = 2 * day\<rparr>"
    by auto
  then have booked: "?r = (ex_s1, Inr \<lparr>msg = ''Viagem reservada!'', resp_id = ''a1'',
      termino_estimado = 2 * day\<rparr>)"
    by (cases ?r) (simp add: ex_s1_def)
  have stored: "map (\<lambda>t. (data_inicio t, data_fim t, dias_duracao t)) (db_trips ex_s1) =
      [(0, 2 * day, 2)]"
    by (simp add: ex_s1_trips stored_trip_def ex_request_def booking_end_def booking_days_900
        day_def)
  let ?o = "ex_request ''vuc-01'' ''mot-01'' last_day 100"
  have "\<not> (max 1 \<lceil>fdiv exact (distancia_km ?o) 70 / 8\<rceil> \<le> 999999999 \<and>
      0 \<le> data_inicio ?o + max 1 \<lceil>fdiv exact (distancia_km ?o) 70 / 8\<rceil> * 86400000000 \<and>
      data_inicio ?o + max 1 \<lceil>fdiv exact (distancia_km ?o) 70 / 8\<rceil> * 86400000000
        \<le> datetime_max)"
    by (simp add: ex_request_ids exact_ops datetime_max_def last_day_def ceiling_eq_iff)
  then have over: "book_trip exact ex_strftime ''e5'' ?o ex_s1 = (ex_s1, Inl OverflowError)"
    using trip_days_in_both_flows
      [of exact ex_settings ex_payload ex_tank150 0 0 None "(0, 0)" "(1, 1)" ?o ex_strftime
        "''e5''" ex_s1, THEN conjunct2, unfolded Let_def, THEN conjunct1]
    by blast
  from ok days booked stored over show ?thesis by simp
qed

section \<open>Margin, overrides and errors of the quote\<close>


lemma str_status_404: "str_status 404 = ''404''"
  by code_simp

lemma ex_get_coords:
  "get_coords ex_env ''Campinas'' = Inr (- 229 / 10, - 4706 / 100)"
  "get_coords ex_env ''Curitiba'' = Inr (- 2543 / 100, - 4927 / 100)"
  "get_coords ex_env ''Atlantida'' = Inl (HTTPException 404 ''Localizacao nao encontrada: Atlantida'')"
  by (simp_all add: get_coords_def ex_env_def ex_geocode_def)

lemma ex_env_fields:
  "osrm_get ex_env = (\<lambda>a b. None)" "great_circle_km ex_env = (\<lambda>a b. 750)"
  "str_exc ex_env = starlette_str" "geocode ex_env = ex_geocode"
  by (simp_all add: ex_env_def)


lemma calculate_quote_unknown_vehicle:
  "trucks (rq_veiculo_id payload) = None \<Longrightarrow>
   calculate_quote rnd ev settings trucks payload =
     Inl (HTTPException 400 ''Veiculo nao encontrado.'')"
  by (simp add: calculate_quote_def)

lemma calculate_quote_unresolved_origin:
  assumes "trucks (rq_veiculo_id payload) = Some v" and "geocode ev (rq_origem payload) = Inr None"
  shows "calculate_quote rnd ev settings trucks payload =
     Inl (HTTPException 500
       (str_exc ev (HTTPException 404 (''Localizacao nao encontrada: '' @ rq_origem payload))))"
  using assms by (simp add: calculate_quote_def get_coords_def)

lemma calculate_quote_unresolved_destination:
  assumes "trucks (rq_veiculo_id payload) = Some v"
    and "geocode ev (rq_origem payload) = Inr (Some c)"
    and "geocode ev (rq_destino payload) = Inr None"
  shows "calculate_quote rnd ev settings trucks payload =
     Inl (HTTPException 500
       (str_exc ev (HTTPException 404 (''Localizacao nao encontrada: '' @ rq_destino payload))))"
  using assms by (simp add: calculate_quote_def get_coords_def)

lemma py_round_exact_examples:
  "py_round exact (- 34337 / 11) 2 = - 312155 / 100"
  "py_round exact (171685 / 77) 2 = 222968 / 100"
  "py_round exact (2067 / 2) 2 = 103350 / 100"
  "py_round exact 0 2 = 0"
  by (simp_all add: py_round_def Let_def exact_def)




text \<open>
  Claim C8 at the request that overrides both the fuel price and the per-diem rate with
  0: the per-diem cost is 0, as the claim says, but the fuel cost is that of 150 liters
  at the default price 6.89, where the claim says the override 0 is used. Whatever the
  rounding and the input, a fuel-price override of 0 gives the quote of a request
  without one.
\<close>

theorem fuel_price_override_zero_ignored:
  "compute_quote exact ex_settings
      (ex_payload\<lparr>preco_diesel_personalizado := Some 0, valor_diaria_personalizado := Some 0\<rparr>)
      vuc_01 900 12 None (0, 0) (1, 1) =
     Inr (quote_result exact ex_settings
            (ex_payload\<lparr>preco_diesel_personalizado := Some 0, valor_diaria_personalizado := Some 0\<rparr>)
            vuc_01 900 12 None (0, 0) (1, 1))
   \<and> custo_combustivel (detalhes_financeiros (quote_result exact ex_settings
         (ex_payload\<lparr>preco_diesel_personalizado := Some 0, valor_diaria_personalizado := Some 0\<rparr>)
         vuc_01 900 12 None (0, 0) (1, 1))) = 103350 / 100
   \<and> custo_motorista_diarias (detalhes_financeiros (quote_result exact ex_settings
         (ex_payload\<lparr>preco_diesel_personalizado := Some 0, valor_diaria_personalizado := Some 0\<rparr>)
         vuc_01 900 12 None (0, 0) (1, 1))) = 0
   \<and> preco_diesel_used ex_settings (ex_payload\<lparr>preco_diesel_personalizado := Some 0\<rparr>) = 689 / 100
   \<and> override_or (preco_diesel_personalizado (ex_payload\<lparr>preco_diesel_personalizado := Some 0\<rparr>))
        (PRECO_COMBUSTIVEL ex_settings) = 0
   \<and> (\<forall>rnd settings payload vehicle d h g co cd.
         compute_quote rnd settings (payload\<lparr>preco_diesel_personalizado := Some 0\<rparr>) vehicle
           d h g co cd =
         compute_quote rnd settings (payload\<lparr>preco_diesel_personalizado := None\<rparr>) vehicle
           d h g co cd)"
proof -
  let ?p = "ex_payload\<lparr>preco_diesel_personalizado := Some 0, valor_diaria_personalizado := Some 0\<rparr>"
  have q: "q_distancia ?p 900 = 900" "q_tempo ?p 12 = 12"
    by (simp_all add: q_distancia_def q_tempo_def ex_payload_def)
  have a: "compute_quote exact ex_settings ?p vuc_01 900 12 None (0, 0) (1, 1) =
     Inr (quote_result exact ex_settings ?p vuc_01 900 12 None (0, 0) (1, 1))"
    by (simp only: compute_quote_unfold q quote_defined_ex if_True)
  have fc: "fuel_cost exact ex_settings ?p vuc_01 900 = 2067 / 2"
    by (simp add: fuel_cost_def fuel_liters_def preco_diesel_used_def ex_settings_def vuc_01_def
        exact_ops)
  have pd: "per_diem_cost exact ex_settings ?p 12 = 0"
    by (simp add: per_diem_cost_def override_or_def exact_ops)
  have b: "custo_combustivel (detalhes_financeiros
      (quote_result exact ex_settings ?p vuc_01 900 12 None (0, 0) (1, 1))) = 103350 / 100"
    unfolding quote_result_fields fc py_round_exact_examples ..
  have c: "custo_motorista_diarias (detalhes_financeiros
      (quote_result exact ex_settings ?p vuc_01 900 12 None (0, 0) (1, 1))) = 0"
    unfolding quote_result_fields pd py_round_exact_examples ..
  have d: "preco_diesel_used ex_settings (ex_payload\<lparr>preco_diesel_personalizado := Some 0\<rparr>) =
      689 / 100"
    by (simp add: preco_diesel_used_def ex_settings_def)
  have e: "override_or (preco_diesel_personalizado (ex_payload\<lparr>preco_diesel_personalizado := Some 0\<rparr>))
        (PRECO_COMBUSTIVEL ex_settings) = 0"
    by (simp add: override_or_def)
  have f: "\<forall>rnd settings payload vehicle d h g co cd.
         compute_quote rnd settings (payload\<lparr>preco_diesel_personalizado := Some 0\<rparr>) vehicle
           d h g co cd =
         compute_quote rnd settings (payload\<lparr>preco_diesel_personalizado := None\<rparr>) vehicle
           d h g co cd"
    by (simp add: compute_quote_unfold quote_notions)
  from a b c d e f show ?thesis by blast
qed

text \<open>
  Claim C9 at a request whose origin (or destination) the geocoder does not know:
  \<open>get_coords\<close> raises the 404 that names the place, and \<open>calculate_quote\<close> turns it
  into a 500 whose detail is \<^verbatim>\<open>str\<close> of that exception. An unknown vehicle id gives a
  400.
\<close>

theorem unresolved_place_is_internal_error:
  "get_coords ex_env ''Atlantida'' =
     Inl (HTTPException 404 ''Localizacao nao encontrada: Atlantida'')
   \<and> (\<forall>rnd. calculate_quote rnd ex_env ex_settings (db_trucks initial_db)
        (ex_payload\<lparr>rq_origem := ''Atlantida''\<rparr>) =
       Inl (HTTPException 500 ''404: Localizacao nao encontrada: Atlantida''))
   \<and> (\<forall>rnd. calculate_quote rnd ex_env ex_settings (db_trucks initial_db)
        (ex_payload\<lparr>rq_destino := ''Atlantida''\<rparr>) =
       Inl (HTTPException 500 ''404: Localizacao nao encontrada: Atlantida''))
   \<and> (\<forall>rnd. calculate_quote rnd ex_env ex_settings (db_trucks initial_db)
         (ex_payload\<lparr>rq_veiculo_id := ''bitrem-07''\<rparr>) =
       Inl (HTTPException 400 ''Veiculo nao encontrado.''))"
proof -
  have s: "starlette_str (HTTPException 404 ''Localizacao nao encontrada: Atlantida'') =
      ''404: Localizacao nao encontrada: Atlantida''"
    by (simp add: starlette_str_def str_status_404)
  have v: "db_trucks initial_db (rq_veiculo_id (ex_payload\<lparr>rq_origem := ''Atlantida''\<rparr>)) = Some vuc_01"
    "db_trucks initial_db (rq_veiculo_id (ex_payload\<lparr>rq_destino := ''Atlantida''\<rparr>)) = Some vuc_01"
    "db_trucks initial_db (rq_veiculo_id (ex_payload\<lparr>rq_veiculo_id := ''bitrem-07''\<rparr>)) = None"
    by (simp_all add: initial_db_def ex_payload_def)
  have g: "geocode ex_env (rq_origem (ex_payload\<lparr>rq_origem := ''Atlantida''\<rparr>)) = Inr None"
    "geocode ex_env (rq_destino (ex_payload\<lparr>rq_destino := ''Atlantida''\<rparr>)) = Inr None"
    "geocode ex_env (rq_origem (ex_payload\<lparr>rq_destino := ''Atlantida''\<rparr>)) =
       Inr (Some (- 229 / 10, - 4706 / 100))"
    by (simp_all add: ex_env_fields ex_geocode_def ex_payload_def)
  have a: "calculate_quote rnd ex_env ex_settings (db_trucks initial_db)
        (ex_payload\<lparr>rq_origem := ''Atlantida''\<rparr>) =
       Inl (HTTPException 500 ''404: Localizacao nao encontrada: Atlantida'')" for rnd
    using calculate_quote_unresolved_origin
      [where trucks = "db_trucks initial_db" and ev = ex_env and v = vuc_01 and rnd = rnd
        and payload = "ex_payload\<lparr>rq_origem := ''Atlantida''\<rparr>" and settings = ex_settings]
      v(1) g(1) s
    by (simp add: ex_env_fields)
  have b: "calculate_quote rnd ex_env ex_settings (db_trucks initial_db)
        (ex_payload\<lparr>rq_destino := ''Atlantida''\<rparr>) =
       Inl (HTTPException 500 ''404: Localizacao nao encontrada: Atlantida'')" for rnd
    using calculate_quote_unresolved_destination
      [where trucks = "db_trucks initial_db" and ev = ex_env and v = vuc_01 and rnd = rnd
        and payload = "ex_payload\<lparr>rq_destino := ''Atlantida''\<rparr>" and settings = ex_settings
        and c = "(- 229 / 10, - 4706 / 100)"]
      v(2) g(2) g(3) s
    by (simp add: ex_env_fields)
  have c: "calculate_quote rnd ex_env ex_settings (db_trucks initial_db)
         (ex_payload\<lparr>rq_veiculo_id := ''bitrem-07''\<rparr>) =
       Inl (HTTPException 400 ''Veiculo nao encontrado.'')" for rnd
    using calculate_quote_unknown_vehicle
      [where trucks = "db_trucks initial_db" and rnd = rnd
        and payload = "ex_payload\<lparr>rq_veiculo_id := ''bitrem-07''\<rparr>"] v(3)
    by blast
  from ex_get_coords(3) a b c show ?thesis by blast
qed

end
